theory Spec2Isabelle
  imports Main
begin

section \<open>Python strings\<close>

text \<open>
  A Python \<open>str\<close> is a sequence of code points. The model covers the code points
  U+0000 .. U+00FF: a string is a \<open>char list\<close> and a \<open>char\<close> is read as the code
  point of that number (Latin-1), not as a byte of an encoding. On this range the string
  methods the handler calls are the finite tables below. Python's integers are unbounded
  (\<open>int\<close>); the interpreter's optional limit on the length of a decimal literal is not
  part of the model.
\<close>

text \<open>\<open>str.isspace\<close> on one code point: TAB, LF, VT, FF, CR, FS, GS, RS, US, SPACE, NEL, NBSP.\<close>

definition isspace_char :: "char \<Rightarrow> bool" where
  "isspace_char c \<longleftrightarrow>
     c \<in> set [CHR 0x09, CHR 0x0A, CHR 0x0B, CHR 0x0C, CHR 0x0D, CHR 0x1C, CHR 0x1D,
               CHR 0x1E, CHR 0x1F, CHR 0x20, CHR 0x85, CHR 0xA0]"

text \<open>\<open>s.strip()\<close>: drop the white space at both ends.\<close>

definition strip :: "string \<Rightarrow> string" where
  "strip s = rev (dropWhile isspace_char (rev (dropWhile isspace_char s)))"

text \<open>The decimal digits \<open>0\<close> .. \<open>9\<close> (\<open>str.isdecimal\<close> on one code point).\<close>

definition isdecimal_char :: "char \<Rightarrow> bool" where
  "isdecimal_char c \<longleftrightarrow> c \<in> set ''0123456789''"

text \<open>
  \<open>str.isdigit\<close> on one code point: the decimal digits and the superscript digits
  U+00B2, U+00B3 and U+00B9, which are digits for Unicode but have no decimal value.
\<close>

definition isdigit_char :: "char \<Rightarrow> bool" where
  "isdigit_char c \<longleftrightarrow> isdecimal_char c \<or> c \<in> set [CHR 0xB2, CHR 0xB3, CHR 0xB9]"

text \<open>\<open>s.isdigit()\<close>: false on the empty string.\<close>

definition isdigit :: "string \<Rightarrow> bool" where
  "isdigit s \<longleftrightarrow> s \<noteq> [] \<and> list_all isdigit_char s"

text \<open>
  \<open>str.lower\<close> on one code point: A-Z and the upper-case letters U+00C0 .. U+00DE
  (without the multiplication sign U+00D7) go to the letter 32 places up; every other
  code point stays.
\<close>

definition upper_chars :: "char list" where
  "upper_chars = ''ABCDEFGHIJKLMNOPQRSTUVWXYZ'' @
     [CHR 0xC0, CHR 0xC1, CHR 0xC2, CHR 0xC3, CHR 0xC4, CHR 0xC5, CHR 0xC6, CHR 0xC7,
      CHR 0xC8, CHR 0xC9, CHR 0xCA, CHR 0xCB, CHR 0xCC, CHR 0xCD, CHR 0xCE, CHR 0xCF,
      CHR 0xD0, CHR 0xD1, CHR 0xD2, CHR 0xD3, CHR 0xD4, CHR 0xD5, CHR 0xD6,
      CHR 0xD8, CHR 0xD9, CHR 0xDA, CHR 0xDB, CHR 0xDC, CHR 0xDD, CHR 0xDE]"

definition lower_chars :: "char list" where
  "lower_chars = ''abcdefghijklmnopqrstuvwxyz'' @
     [CHR 0xE0, CHR 0xE1, CHR 0xE2, CHR 0xE3, CHR 0xE4, CHR 0xE5, CHR 0xE6, CHR 0xE7,
      CHR 0xE8, CHR 0xE9, CHR 0xEA, CHR 0xEB, CHR 0xEC, CHR 0xED, CHR 0xEE, CHR 0xEF,
      CHR 0xF0, CHR 0xF1, CHR 0xF2, CHR 0xF3, CHR 0xF4, CHR 0xF5, CHR 0xF6,
      CHR 0xF8, CHR 0xF9, CHR 0xFA, CHR 0xFB, CHR 0xFC, CHR 0xFD, CHR 0xFE]"

definition lower_char :: "char \<Rightarrow> char" where
  "lower_char c = (case map_of (zip upper_chars lower_chars) c of None \<Rightarrow> c | Some d \<Rightarrow> d)"

definition lower :: "string \<Rightarrow> string" where
  "lower s = map lower_char s"

datatype py_error = ValueError | JSONDecodeError | AttributeError

text \<open>
  \<open>int(s)\<close> in base 10. The white space \<open>int\<close> skips at both ends is that of
  \<open>str.isspace\<close> without FS, GS, RS and US; then an optional sign; then groups of
  decimal digits joined by single underscores. Anything else raises \<open>ValueError\<close>.
\<close>

definition int_space :: "char \<Rightarrow> bool" where
  "int_space c \<longleftrightarrow>
     c \<in> set [CHR 0x09, CHR 0x0A, CHR 0x0B, CHR 0x0C, CHR 0x0D, CHR 0x20, CHR 0x85, CHR 0xA0]"

fun digit_groups :: "bool \<Rightarrow> string \<Rightarrow> bool" where
  "digit_groups after_digit [] = after_digit"
| "digit_groups after_digit (c # cs) =
     (if isdecimal_char c then digit_groups True cs
      else if c = CHR ''_'' \<and> after_digit then digit_groups False cs
      else False)"

definition digit_val :: "char \<Rightarrow> int" where
  "digit_val c = int (of_char c) - 48"

fun digits_value :: "int \<Rightarrow> string \<Rightarrow> int" where
  "digits_value acc [] = acc"
| "digits_value acc (c # cs) =
     (if c = CHR ''_'' then digits_value acc cs else digits_value (10 * acc + digit_val c) cs)"

definition py_int :: "string \<Rightarrow> py_error + int" where
  "py_int s =
     (let t = rev (dropWhile int_space (rev (dropWhile int_space s)));
          neg = (case t of [] \<Rightarrow> False | c # _ \<Rightarrow> c = CHR ''-'');
          u = (case t of [] \<Rightarrow> [] | c # cs \<Rightarrow> if c = CHR ''+'' \<or> c = CHR ''-'' then cs else t)
      in if digit_groups False u
         then Inr (if neg then - digits_value 0 u else digits_value 0 u)
         else Inl ValueError)"

section \<open>The request, the files on disk and the session\<close>

text \<open>
  \<open>request.form\<close> and \<open>request.files\<close> are multi-dictionaries: association lists, whose
  \<open>get\<close> returns the first value stored under the key, or the default.
\<close>

record file_storage =
  filename :: string
  stream :: string

record request =
  form :: "(string \<times> string) list"
  files :: "(string \<times> file_storage) list"

definition form_get :: "request \<Rightarrow> string \<Rightarrow> string \<Rightarrow> string" where
  "form_get req k d = (case map_of (form req) k of None \<Rightarrow> d | Some v \<Rightarrow> v)"

text \<open>The values \<open>json.load\<close> returns and \<open>json.dump\<close> writes.\<close>

datatype json =
    JNull
  | JBool bool
  | JInt int
  | JStr string
  | JArr "json list"
  | JObj "(string \<times> json) list"

text \<open>
  The text of \<open>registrations.json\<close>, seen through \<open>json.load\<close>: either the text of a
  JSON value, or text that \<open>json.load\<close> refuses. \<open>json.dump\<close> writes the text of the
  value it is given.
\<close>

datatype stored = Unparsable | Parsed json

text \<open>
  The state the handlers read and write: the file \<open>registrations.json\<close> (\<open>None\<close> when
  it does not exist), the files of the folder \<open>uploads\<close> by name, and the messages
  flashed into the session, oldest first, each with its category. Reading and writing
  these files succeeds in the model: full disks and missing permissions are left out.
\<close>

record world =
  registrations_json :: "stored option"
  uploads :: "string \<rightharpoonup> string"
  flashes :: "(string \<times> string) list"

datatype response = Redirect string | Render string "json option"

definition flash :: "string \<Rightarrow> string \<Rightarrow> world \<Rightarrow> world" where
  "flash message category w = w\<lparr>flashes := flashes w @ [(message, category)]\<rparr>"

definition save :: "file_storage \<Rightarrow> string \<Rightarrow> world \<Rightarrow> world" where
  "save f path w = w\<lparr>uploads := (uploads w)(path \<mapsto> stream f)\<rparr>"

definition json_load :: "stored \<Rightarrow> py_error + json" where
  "json_load c = (case c of Unparsable \<Rightarrow> Inl JSONDecodeError | Parsed v \<Rightarrow> Inr v)"

section \<open>The handlers of \<open>app.py\<close>\<close>

definition ALLOWED_EXTENSIONS :: "string set" where
  "ALLOWED_EXTENSIONS = {''png'', ''jpg'', ''jpeg'', ''pdf''}"

text \<open>\<open>filename.rsplit('.', 1)[1]\<close>, for a name with a dot: what follows the last dot.\<close>

definition rsplit_ext :: "string \<Rightarrow> string" where
  "rsplit_ext fn = rev (takeWhile (\<lambda>c. c \<noteq> CHR ''.'') (rev fn))"

definition allowed_file :: "string \<Rightarrow> bool" where
  "allowed_file fn \<longleftrightarrow> CHR ''.'' \<in> set fn \<and> lower (rsplit_ext fn) \<in> ALLOWED_EXTENSIONS"

text \<open>The local variables of \<open>submit_form\<close> that hold the form's inputs.\<close>

record fields =
  name :: string
  country :: string
  age :: string
  gender :: string
  dob :: string
  phone :: string
  id_type :: string
  id_value :: string
  emergency_name :: string
  emergency_phone :: string
  traveling_family :: string
  medical_concerns :: string
  medical_details :: string
  current_residence :: string

text \<open>Step 1 of \<open>submit_form\<close>: gender, dob, id_type and medical_concerns are not stripped.\<close>

definition collect :: "request \<Rightarrow> fields" where
  "collect req =
     \<lparr> name = strip (form_get req ''name'' ''''),
       country = strip (form_get req ''country'' ''''),
       age = strip (form_get req ''age'' ''''),
       gender = form_get req ''gender'' '''',
       dob = form_get req ''dob'' '''',
       phone = strip (form_get req ''phone'' ''''),
       id_type = form_get req ''id_type'' '''',
       id_value = strip (form_get req ''id_value'' ''''),
       emergency_name = strip (form_get req ''emergency_name'' ''''),
       emergency_phone = strip (form_get req ''emergency_phone'' ''''),
       traveling_family = strip (form_get req ''traveling_family'' ''''),
       medical_concerns = form_get req ''medical_concerns'' '''',
       medical_details = strip (form_get req ''medical_details'' ''''),
       current_residence = strip (form_get req ''current_residence'' '''') \<rparr>"

text \<open>
  Step 2 threads the flag \<open>error\<close> and the session through the checks. One check is
  \<^verbatim>\<open>if c: flash(message, "error"); error = True\<close>.
\<close>

type_synonym vstate = "bool \<times> world"

definition check :: "bool \<Rightarrow> string \<Rightarrow> vstate \<Rightarrow> vstate" where
  "check c message s = (if c then (True, flash message ''error'' (snd s)) else s)"

text \<open>
  \<^verbatim>\<open>if age and (not age.isdigit() or int(age) <= 0)\<close>: \<open>int\<close> is called only when
  \<open>isdigit\<close> holds, and what it raises leaves the handler.
\<close>

definition check_age :: "string \<Rightarrow> vstate \<Rightarrow> py_error + vstate" where
  "check_age a s =
     (if a \<noteq> [] then
        (if \<not> isdigit a then Inr (check True ''Age must be a positive number'' s)
         else case py_int a of
                Inl e \<Rightarrow> Inl e
              | Inr n \<Rightarrow> Inr (check (n \<le> 0) ''Age must be a positive number'' s))
      else Inr s)"

text \<open>
  The file check. A \<open>FileStorage\<close> is true when its filename is not empty. A file with
  an allowed name is saved here, inside the validation pass, under the name that
  \<open>secure_filename\<close> gives; \<open>secure_filename\<close> belongs to werkzeug and is a parameter of
  the model.
\<close>

definition check_file ::
  "(string \<Rightarrow> string) \<Rightarrow> file_storage option \<Rightarrow> vstate \<Rightarrow> string option \<times> vstate" where
  "check_file secure_filename image_file s =
     (case image_file of
        None \<Rightarrow> (None, s)
      | Some f \<Rightarrow>
          if filename f \<noteq> [] \<and> filename f \<noteq> '''' then
            (if \<not> allowed_file (filename f)
             then (None, check True ''Invalid file type. Only PNG, JPG, JPEG, or PDF allowed.'' s)
             else (Some (secure_filename (filename f)),
                   (fst s, save f (secure_filename (filename f)) (snd s))))
          else (None, s))"

text \<open>The dictionary appended to the list; \<open>n\<close> is \<open>int(age)\<close>.\<close>

definition registration :: "fields \<Rightarrow> int \<Rightarrow> string option \<Rightarrow> json" where
  "registration f n image_filename =
     JObj [(''name'', JStr (name f)),
           (''country'', JStr (country f)),
           (''age'', JInt n),
           (''gender'', JStr (gender f)),
           (''dob'', JStr (dob f)),
           (''phone'', JStr (phone f)),
           (''id_type'', JStr (id_type f)),
           (''id_value'', JStr (id_value f)),
           (''emergency_name'', JStr (emergency_name f)),
           (''emergency_phone'', JStr (emergency_phone f)),
           (''traveling_family'', JStr (traveling_family f)),
           (''medical_concerns'', JStr (medical_concerns f)),
           (''medical_details'', JStr (medical_details f)),
           (''current_residence'', JStr (current_residence f)),
           (''image_filename'', case image_filename of None \<Rightarrow> JNull | Some fn \<Rightarrow> JStr fn)]"

text \<open>
  Reading the store, as both \<open>submit_form\<close> and \<open>view_registrations\<close> do: the empty
  list when the file does not exist.
\<close>

definition load_data :: "world \<Rightarrow> py_error + json" where
  "load_data w = (case registrations_json w of None \<Rightarrow> Inr (JArr []) | Some c \<Rightarrow> json_load c)"

text \<open>
  Steps 3 and 4: load, append, write back, flash the success. \<open>data.append\<close> exists
  only when the loaded value is a list.
\<close>

definition save_registration :: "fields \<Rightarrow> string option \<Rightarrow> world \<Rightarrow> (py_error + response) \<times> world" where
  "save_registration f image_filename w =
     (case load_data w of
        Inl e \<Rightarrow> (Inl e, w)
      | Inr data \<Rightarrow>
          (case data of
             JArr xs \<Rightarrow>
               (case py_int (age f) of
                  Inl e \<Rightarrow> (Inl e, w)
                | Inr n \<Rightarrow>
                    (Inr (Redirect ''register''),
                     flash ''Registration submitted successfully!'' ''success''
                       (w\<lparr>registrations_json :=
                            Some (Parsed (JArr (xs @ [registration f n image_filename])))\<rparr>)))
           | _ \<Rightarrow> (Inl AttributeError, w)))"

definition submit_form :: "(string \<Rightarrow> string) \<Rightarrow> request \<Rightarrow> world \<Rightarrow> (py_error + response) \<times> world" where
  "submit_form secure_filename req w =
     (let f = collect req;
          image_file = map_of (files req) ''image'';
          s = (False, w);
          s = check (name f = []) ''Full Name is required'' s;
          s = check (country f = []) ''Country of Origin is required'' s;
          s = check (age f = []) ''Age is required'' s
      in case check_age (age f) s of
           Inl e \<Rightarrow> (Inl e, snd s)
         | Inr s \<Rightarrow>
             (let s = check (gender f = []) ''Gender is required'' s;
                  s = check (dob f = []) ''Date of Birth is required'' s;
                  s = check (phone f \<noteq> [] \<and> \<not> isdigit (phone f))
                        ''Phone number must contain only digits'' s;
                  s = check (id_type f \<noteq> [] \<and> id_value f = [])
                        (''Please enter your '' @ id_type f @ '' number'') s;
                  s = check (medical_concerns f = ''Yes'' \<and> medical_details f = [])
                        ''Please specify your medical concerns'' s;
                  (image_filename, s) = check_file secure_filename image_file s
              in if fst s then (Inr (Redirect ''register''), snd s)
                 else save_registration f image_filename (snd s)))"

definition view_registrations :: "world \<Rightarrow> (py_error + response) \<times> world" where
  "view_registrations w =
     (case load_data w of
        Inl e \<Rightarrow> (Inl e, w)
      | Inr data \<Rightarrow> (Inr (Render ''view.html'' (Some data)), w))"

definition index :: "world \<Rightarrow> (py_error + response) \<times> world" where
  "index w = (Inr (Render ''index.html'' None), w)"

definition register :: "world \<Rightarrow> (py_error + response) \<times> world" where
  "register w = (Inr (Render ''register.html'' None), w)"

section \<open>The notions of the specification\<close>

text \<open>
  An age string that stands for a positive whole number: not empty, decimal digits only,
  and a value above zero.
\<close>

definition positive_integer :: "string \<Rightarrow> bool" where
  "positive_integer a \<longleftrightarrow> a \<noteq> [] \<and> list_all isdecimal_char a \<and> 0 < digits_value 0 a"

text \<open>
  The strings on which the guard \<open>isdigit\<close> lets \<open>int\<close> run and \<open>int\<close> raises: digits
  only, one of them a superscript.
\<close>

definition int_raises :: "string \<Rightarrow> bool" where
  "int_raises a \<longleftrightarrow> isdigit a \<and> \<not> list_all isdecimal_char a"

text \<open>The file of the submission, when one is present: a part \<open>image\<close> with a name.\<close>

definition uploaded :: "request \<Rightarrow> file_storage option" where
  "uploaded req =
     (case map_of (files req) ''image'' of
        None \<Rightarrow> None
      | Some f \<Rightarrow> if filename f = [] then None else Some f)"

definition errors_of :: "bool \<Rightarrow> string \<Rightarrow> (string \<times> string) list" where
  "errors_of violated message = (if violated then [(message, ''error'')] else [])"

text \<open>
  The rules of the specification's table, each with the message of its violation, in
  the order of the table.
\<close>

definition violations :: "request \<Rightarrow> (string \<times> string) list" where
  "violations req =
     (let f = collect req in
        errors_of (name f = []) ''Full Name is required'' @
        errors_of (country f = []) ''Country of Origin is required'' @
        errors_of (age f = []) ''Age is required'' @
        errors_of (age f \<noteq> [] \<and> \<not> positive_integer (age f)) ''Age must be a positive number'' @
        errors_of (gender f = []) ''Gender is required'' @
        errors_of (dob f = []) ''Date of Birth is required'' @
        errors_of (phone f \<noteq> [] \<and> \<not> isdigit (phone f)) ''Phone number must contain only digits'' @
        errors_of (id_type f \<noteq> [] \<and> id_value f = [])
          (''Please enter your '' @ id_type f @ '' number'') @
        errors_of (medical_concerns f = ''Yes'' \<and> medical_details f = [])
          ''Please specify your medical concerns'' @
        errors_of (case uploaded req of None \<Rightarrow> False | Some u \<Rightarrow> \<not> allowed_file (filename u))
          ''Invalid file type. Only PNG, JPG, JPEG, or PDF allowed.'')"

text \<open>The folder \<open>uploads\<close> after the file check: a present file with an allowed name is in it.\<close>

definition file_step :: "(string \<Rightarrow> string) \<Rightarrow> request \<Rightarrow> world \<Rightarrow> world" where
  "file_step secure_filename req w =
     (case uploaded req of
        None \<Rightarrow> w
      | Some u \<Rightarrow> if allowed_file (filename u) then save u (secure_filename (filename u)) w else w)"

definition add_flashes :: "(string \<times> string) list \<Rightarrow> world \<Rightarrow> world" where
  "add_flashes ms w = w\<lparr>flashes := flashes w @ ms\<rparr>"

text \<open>The messages a call has flashed: what the session holds beyond what it held before.\<close>

definition new_flashes :: "world \<Rightarrow> world \<Rightarrow> (string \<times> string) list" where
  "new_flashes w w' = drop (length (flashes w)) (flashes w')"

text \<open>A submission succeeds when the handler returns and has flashed the success message.\<close>

definition succeeds :: "(string \<Rightarrow> string) \<Rightarrow> request \<Rightarrow> world \<Rightarrow> bool" where
  "succeeds secure_filename req w \<longleftrightarrow>
     fst (submit_form secure_filename req w) = Inr (Redirect ''register'') \<and>
     (''Registration submitted successfully!'', ''success'')
       \<in> set (new_flashes w (snd (submit_form secure_filename req w)))"

text \<open>The persisted sequence: the elements of the list in the store, none when there is no list.\<close>

definition records :: "world \<Rightarrow> json list" where
  "records w = (case load_data w of Inr (JArr xs) \<Rightarrow> xs | _ \<Rightarrow> [])"

text \<open>The record a validated submission is to leave in the store, age as an integer.\<close>

definition built_record :: "(string \<Rightarrow> string) \<Rightarrow> request \<Rightarrow> json" where
  "built_record secure_filename req =
     registration (collect req) (digits_value 0 (age (collect req)))
       (map_option (\<lambda>u. secure_filename (filename u)) (uploaded req))"

text \<open>The invariants of the data model, on one stored object.\<close>

definition str_field :: "json \<Rightarrow> string \<Rightarrow> string option" where
  "str_field r k =
     (case r of
        JObj kvs \<Rightarrow> (case map_of kvs k of Some (JStr v) \<Rightarrow> Some v | _ \<Rightarrow> None)
      | _ \<Rightarrow> None)"

definition int_field :: "json \<Rightarrow> string \<Rightarrow> int option" where
  "int_field r k =
     (case r of
        JObj kvs \<Rightarrow> (case map_of kvs k of Some (JInt v) \<Rightarrow> Some v | _ \<Rightarrow> None)
      | _ \<Rightarrow> None)"

definition nonempty_field :: "json \<Rightarrow> string \<Rightarrow> bool" where
  "nonempty_field r k = (case str_field r k of Some v \<Rightarrow> v \<noteq> [] | None \<Rightarrow> False)"

definition valid_record :: "json \<Rightarrow> bool" where
  "valid_record r \<longleftrightarrow>
     nonempty_field r ''name'' \<and> nonempty_field r ''country'' \<and>
     nonempty_field r ''gender'' \<and> nonempty_field r ''dob'' \<and>
     (case int_field r ''age'' of Some n \<Rightarrow> 0 < n | None \<Rightarrow> False) \<and>
     (str_field r ''id_type'' = Some [] \<or> nonempty_field r ''id_value'') \<and>
     (str_field r ''medical_concerns'' \<noteq> Some ''Yes'' \<or> nonempty_field r ''medical_details'')"

text \<open>The four routes of the program, and a run of one request.\<close>

datatype operation = Index | Register | Submit request | View

definition run :: "(string \<Rightarrow> string) \<Rightarrow> operation \<Rightarrow> world \<Rightarrow> (py_error + response) \<times> world" where
  "run secure_filename op w =
     (case op of
        Index \<Rightarrow> index w
      | Register \<Rightarrow> register w
      | Submit req \<Rightarrow> submit_form secure_filename req w
      | View \<Rightarrow> view_registrations w)"


text \<open>
  The scenario of the specification: a submission with the five required fields and
  nothing else, and a state with no store, no uploaded file and no message.
\<close>

definition scenario :: request where
  "scenario =
     \<lparr> form = [(''name'', ''Amina''), (''country'', ''Syria''), (''age'', ''34''),
                (''gender'', ''F''), (''dob'', ''1990-01-01'')],
       files = [] \<rparr>"

definition fresh :: world where
  "fresh = \<lparr> registrations_json = None, uploads = Map.empty, flashes = [] \<rparr>"

definition with_field :: "string \<Rightarrow> string \<Rightarrow> request \<Rightarrow> request" where
  "with_field k v req = req\<lparr>form := (k, v) # form req\<rparr>"

definition with_image :: "string \<Rightarrow> string \<Rightarrow> request \<Rightarrow> request" where
  "with_image fn bytes req = req\<lparr>files := [(''image'', \<lparr>filename = fn, stream = bytes\<rparr>)]\<rparr>"

section \<open>Strings of digits\<close>

lemma isdigit_char_plain:
  "isdigit_char c \<Longrightarrow> \<not> int_space c \<and> c \<noteq> CHR ''_'' \<and> c \<noteq> CHR ''+'' \<and> c \<noteq> CHR ''-''"
  by (auto simp: isdigit_char_def isdecimal_char_def int_space_def)

lemma digit_groups_digits:
  "list_all isdigit_char a \<Longrightarrow> digit_groups b a = (if a = [] then b else list_all isdecimal_char a)"
proof (induction a arbitrary: b)
  case Nil
  then show ?case by simp
next
  case (Cons c cs)
  then show ?case using isdigit_char_plain [of c] by auto
qed

lemma dropWhile_hd: "a \<noteq> [] \<Longrightarrow> \<not> P (hd a) \<Longrightarrow> dropWhile P a = a"
  by (cases a) auto

lemma int_trim_digits:
  assumes "isdigit a"
  shows "rev (dropWhile int_space (rev (dropWhile int_space a))) = a"
proof -
  from assms have ne: "a \<noteq> []" and all: "list_all isdigit_char a"
    by (simp_all add: isdigit_def)
  from ne all have "\<not> int_space (hd a)"
    using isdigit_char_plain [of "hd a"] by (cases a) auto
  with ne have 1: "dropWhile int_space a = a" by (rule dropWhile_hd)
  from ne all have "isdigit_char (last a)"
    by (simp add: list_all_iff)
  then have "\<not> int_space (hd (rev a))"
    using ne isdigit_char_plain [of "last a"] by (simp add: hd_rev)
  with ne have "dropWhile int_space (rev a) = rev a"
    by (intro dropWhile_hd) auto
  with 1 show ?thesis by simp
qed

lemma py_int_isdigit:
  assumes "isdigit a"
  shows "py_int a = (if list_all isdecimal_char a then Inr (digits_value 0 a) else Inl ValueError)"
proof -
  from assms obtain c cs where a: "a = c # cs" and c: "isdigit_char c"
    by (cases a) (auto simp: isdigit_def)
  from assms have all: "list_all isdigit_char a" by (simp add: isdigit_def)
  have sign: "c \<noteq> CHR ''+''" "c \<noteq> CHR ''-''"
    using isdigit_char_plain [OF c] by simp_all
  have "digit_groups False a = list_all isdecimal_char a"
    using digit_groups_digits [OF all, of False] a by simp
  then show ?thesis
    unfolding py_int_def int_trim_digits [OF assms] Let_def
    using sign by (simp add: a)
qed

lemma digit_val_range: "isdecimal_char c \<Longrightarrow> 0 \<le> digit_val c \<and> digit_val c \<le> 9"
  by (auto simp: isdecimal_char_def digit_val_def)

lemma digits_value_nonneg:
  "list_all isdecimal_char a \<Longrightarrow> 0 \<le> acc \<Longrightarrow> 0 \<le> digits_value acc a"
proof (induction a arbitrary: acc)
  case Nil
  then show ?case by simp
next
  case (Cons c cs)
  then show ?case using digit_val_range [of c] by auto
qed

lemma isdecimal_isdigit: "list_all isdecimal_char a \<Longrightarrow> list_all isdigit_char a"
  by (induction a) (auto simp: isdigit_char_def)

section \<open>What \<open>submit_form\<close> computes\<close>

lemma add_flashes_Nil: "add_flashes [] w = w"
  by (simp add: add_flashes_def)

lemma add_flashes_append: "add_flashes ms (add_flashes ns w) = add_flashes (ns @ ms) w"
  by (simp add: add_flashes_def)

lemma check_eq: "check c m (e, w) = (e \<or> c, add_flashes (errors_of c m) w)"
  by (simp add: check_def flash_def add_flashes_def errors_of_def)

lemma check_age_eq:
  "check_age a s =
     (if int_raises a then Inl ValueError
      else Inr (check (a \<noteq> [] \<and> \<not> positive_integer a) ''Age must be a positive number'' s))"
  by (auto simp: check_age_def int_raises_def positive_integer_def py_int_isdigit check_def
        isdigit_def dest: isdecimal_isdigit)

lemma save_add_flashes: "save u p (add_flashes ms w) = add_flashes ms (save u p w)"
  by (simp add: save_def add_flashes_def)

lemma file_step_add_flashes:
  "file_step sec req (add_flashes ms w) = add_flashes ms (file_step sec req w)"
  by (simp add: file_step_def save_add_flashes split: option.splits)

lemma check_file_eq:
  "check_file sec (map_of (files req) ''image'') (e, w) =
     (if (case uploaded req of None \<Rightarrow> False | Some u \<Rightarrow> allowed_file (filename u))
      then map_option (\<lambda>u. sec (filename u)) (uploaded req) else None,
      e \<or> (case uploaded req of None \<Rightarrow> False | Some u \<Rightarrow> \<not> allowed_file (filename u)),
      add_flashes
        (errors_of (case uploaded req of None \<Rightarrow> False | Some u \<Rightarrow> \<not> allowed_file (filename u))
           ''Invalid file type. Only PNG, JPG, JPEG, or PDF allowed.'')
        (file_step sec req w))"
  by (simp add: check_file_def uploaded_def file_step_def check_eq errors_of_def
        add_flashes_Nil split: option.splits)

lemma errors_of_Nil_iff: "errors_of c m = [] \<longleftrightarrow> \<not> c"
  by (simp add: errors_of_def)

lemma violations_Nil_iff:
  "violations req = [] \<longleftrightarrow>
     name (collect req) \<noteq> [] \<and> country (collect req) \<noteq> [] \<and>
     positive_integer (age (collect req)) \<and>
     gender (collect req) \<noteq> [] \<and> dob (collect req) \<noteq> [] \<and>
     (phone (collect req) = [] \<or> isdigit (phone (collect req))) \<and>
     (id_type (collect req) = [] \<or> id_value (collect req) \<noteq> []) \<and>
     (medical_concerns (collect req) \<noteq> ''Yes'' \<or> medical_details (collect req) \<noteq> []) \<and>
     (case uploaded req of None \<Rightarrow> True | Some u \<Rightarrow> allowed_file (filename u))"
  unfolding violations_def Let_def append_is_Nil_conv errors_of_Nil_iff
  by (auto simp: positive_integer_def split: option.splits)

lemma submit_form_raises:
  assumes "int_raises (age (collect req))"
  shows "submit_form sec req w =
     (Inl ValueError,
      add_flashes (errors_of (name (collect req) = []) ''Full Name is required'' @
                   errors_of (country (collect req) = []) ''Country of Origin is required'') w)"
proof -
  from assms have "age (collect req) \<noteq> []"
    by (auto simp: int_raises_def isdigit_def)
  with assms show ?thesis
    by (simp add: submit_form_def Let_def check_eq check_age_eq add_flashes_append
          errors_of_Nil_iff [THEN iffD2])
qed

lemma submit_form_returns:
  assumes "\<not> int_raises (age (collect req))"
  shows "submit_form sec req w =
     (if violations req \<noteq> []
      then (Inr (Redirect ''register''), add_flashes (violations req) (file_step sec req w))
      else save_registration (collect req)
             (map_option (\<lambda>u. sec (filename u)) (uploaded req)) (file_step sec req w))"
proof (cases "violations req = []")
  case True
  then have ok: "name (collect req) \<noteq> []" "country (collect req) \<noteq> []"
      "positive_integer (age (collect req))" "age (collect req) \<noteq> []"
      "gender (collect req) \<noteq> []" "dob (collect req) \<noteq> []"
      "phone (collect req) = [] \<or> isdigit (phone (collect req))"
      "id_type (collect req) = [] \<or> id_value (collect req) \<noteq> []"
      "medical_concerns (collect req) \<noteq> ''Yes'' \<or> medical_details (collect req) \<noteq> []"
      "case uploaded req of None \<Rightarrow> True | Some u \<Rightarrow> allowed_file (filename u)"
    unfolding violations_Nil_iff by (simp_all add: positive_integer_def)
  have fl: "\<not> (case uploaded req of None \<Rightarrow> False | Some u \<Rightarrow> \<not> allowed_file (filename u))"
      "(case uploaded req of None \<Rightarrow> False | Some u \<Rightarrow> allowed_file (filename u)) \<or> uploaded req = None"
    using ok(10) by (auto split: option.splits)
  show ?thesis
    using assms True ok(1-9) fl
    by (auto simp add: submit_form_def Let_def check_eq check_age_eq check_file_eq
          errors_of_def add_flashes_Nil)
next
  case False
  have flag: "(name (collect req) = [] \<or> country (collect req) = [] \<or> age (collect req) = [] \<or>
      (age (collect req) \<noteq> [] \<and> \<not> positive_integer (age (collect req))) \<or>
      gender (collect req) = [] \<or> dob (collect req) = [] \<or>
      (phone (collect req) \<noteq> [] \<and> \<not> isdigit (phone (collect req))) \<or>
      (id_type (collect req) \<noteq> [] \<and> id_value (collect req) = []) \<or>
      (medical_concerns (collect req) = ''Yes'' \<and> medical_details (collect req) = []) \<or>
      (case uploaded req of None \<Rightarrow> False | Some u \<Rightarrow> \<not> allowed_file (filename u)))"
    using False unfolding violations_Nil_iff by (auto split: option.splits)
  have "submit_form sec req w =
      (Inr (Redirect ''register''), add_flashes (violations req) (file_step sec req w))"
    using assms flag
    by (simp add: submit_form_def Let_def check_eq check_age_eq check_file_eq
          add_flashes_append file_step_add_flashes violations_def)
  with False show ?thesis by simp
qed

section \<open>Accepted and rejected submissions\<close>

lemma violations_error: "x \<in> set (violations req) \<Longrightarrow> snd x = ''error''"
  by (auto simp: violations_def Let_def errors_of_def split: if_splits)

lemma add_flashes_sel [simp]:
  "registrations_json (add_flashes ms w) = registrations_json w"
  "uploads (add_flashes ms w) = uploads w"
  "flashes (add_flashes ms w) = flashes w @ ms"
  by (simp_all add: add_flashes_def)

lemma file_step_sel [simp]:
  "registrations_json (file_step sec req w) = registrations_json w"
  "flashes (file_step sec req w) = flashes w"
  by (simp_all add: file_step_def save_def split: option.splits)

lemma load_data_frame [simp]:
  "load_data (add_flashes ms w) = load_data w"
  "load_data (file_step sec req w) = load_data w"
  by (simp_all add: load_data_def)

lemma new_flashes_add [simp]:
  "flashes w' = flashes w \<Longrightarrow> new_flashes w (add_flashes ms w') = ms"
  by (simp add: new_flashes_def)

lemma py_int_positive:
  "positive_integer a \<Longrightarrow> py_int a = Inr (digits_value 0 a)"
  by (simp add: positive_integer_def py_int_isdigit isdigit_def isdecimal_isdigit)

lemma save_registration_eq:
  assumes "positive_integer (age f)"
  shows "save_registration f img w =
     (case load_data w of
        Inl e \<Rightarrow> (Inl e, w)
      | Inr (JArr xs) \<Rightarrow>
          (Inr (Redirect ''register''),
           add_flashes [(''Registration submitted successfully!'', ''success'')]
             (w\<lparr>registrations_json :=
                  Some (Parsed (JArr (xs @ [registration f (digits_value 0 (age f)) img])))\<rparr>))
      | Inr _ \<Rightarrow> (Inl AttributeError, w))"
  by (simp add: save_registration_def py_int_positive [OF assms] flash_def add_flashes_def
        split: sum.splits json.splits)

lemma submit_form_valid:
  assumes "violations req = []"
  shows "submit_form sec req w =
     (case load_data w of
        Inl e \<Rightarrow> (Inl e, file_step sec req w)
      | Inr (JArr xs) \<Rightarrow>
          (Inr (Redirect ''register''),
           add_flashes [(''Registration submitted successfully!'', ''success'')]
             ((file_step sec req w)\<lparr>registrations_json :=
                  Some (Parsed (JArr (xs @ [built_record sec req])))\<rparr>))
      | Inr _ \<Rightarrow> (Inl AttributeError, file_step sec req w))"
proof -
  from assms have pos: "positive_integer (age (collect req))"
    by (simp add: violations_Nil_iff)
  then have "\<not> int_raises (age (collect req))"
    by (simp add: positive_integer_def int_raises_def)
  then show ?thesis
    using assms
    by (simp add: submit_form_returns save_registration_eq [OF pos] built_record_def
          split: sum.splits json.splits)
qed

lemma succeeds_iff:
  "succeeds sec req w \<longleftrightarrow> violations req = [] \<and> (\<exists>xs. load_data w = Inr (JArr xs))"
proof (cases "int_raises (age (collect req))")
  case True
  then have "\<not> positive_integer (age (collect req))"
    by (simp add: positive_integer_def int_raises_def)
  then have "violations req \<noteq> []" by (simp add: violations_Nil_iff)
  with True show ?thesis by (simp add: succeeds_def submit_form_raises)
next
  case False
  show ?thesis
  proof (cases "violations req = []")
    case True
    then show ?thesis
      by (auto simp: succeeds_def submit_form_valid split: sum.splits json.splits)
  next
    case no: False
    with False show ?thesis
      by (auto simp: succeeds_def submit_form_returns dest: violations_error)
  qed
qed

lemma succeeds_store:
  assumes "succeeds sec req w"
  shows "records (snd (submit_form sec req w)) = records w @ [built_record sec req]"
proof -
  from assms obtain xs where "violations req = []" "load_data w = Inr (JArr xs)"
    by (auto simp: succeeds_iff)
  then show ?thesis
    by (simp add: submit_form_valid records_def load_data_def json_load_def)
qed

lemma failed_submission_store:
  assumes "\<not> succeeds sec req w"
  shows "registrations_json (snd (submit_form sec req w)) = registrations_json w"
proof (cases "int_raises (age (collect req))")
  case True
  then show ?thesis by (simp add: submit_form_raises)
next
  case False
  show ?thesis
  proof (cases "violations req = []")
    case True
    with assms show ?thesis
      by (auto simp: succeeds_iff submit_form_valid split: sum.splits json.splits)
  next
    case no: False
    with False show ?thesis by (simp add: submit_form_returns)
  qed
qed

section \<open>Messages, files and records of one submission\<close>


lemma file_message_in_violations:
  "(''Invalid file type. Only PNG, JPG, JPEG, or PDF allowed.'', ''error'') \<in> set (violations req)
   \<longleftrightarrow> (\<exists>u. uploaded req = Some u \<and> \<not> allowed_file (filename u))"
  by (auto simp: violations_def Let_def errors_of_def split: if_splits option.splits)

lemma rejected_file_not_saved:
  assumes "\<not> int_raises (age (collect req))"
    and "uploaded req = Some u" and "\<not> allowed_file (filename u)"
  shows "fst (submit_form sec req w) = Inr (Redirect ''register'') \<and>
         (''Invalid file type. Only PNG, JPG, JPEG, or PDF allowed.'', ''error'')
           \<in> set (new_flashes w (snd (submit_form sec req w))) \<and>
         uploads (snd (submit_form sec req w)) = uploads w \<and>
         registrations_json (snd (submit_form sec req w)) = registrations_json w"
proof -
  from assms(2,3) have v: "(''Invalid file type. Only PNG, JPG, JPEG, or PDF allowed.'', ''error'')
      \<in> set (violations req)"
    by (simp add: file_message_in_violations)
  then have "violations req \<noteq> []" by auto
  moreover have "file_step sec req w = w"
    using assms(2,3) by (simp add: file_step_def)
  ultimately show ?thesis
    using assms(1) v by (simp add: submit_form_returns)
qed

lemma new_flashes_same: "flashes w' = flashes w \<Longrightarrow> new_flashes w w' = []"
  by (simp add: new_flashes_def)

lemma returning_submission_flashes:
  assumes "\<not> int_raises (age (collect req))"
  shows "filter (\<lambda>x. snd x = ''error'') (new_flashes w (snd (submit_form sec req w))) = violations req"
proof (cases "violations req = []")
  case True
  then show ?thesis
    by (simp add: submit_form_valid new_flashes_same split: sum.splits json.splits)
next
  case False
  have "filter (\<lambda>x. snd x = ''error'') (violations req) = violations req"
    by (rule filter_True) (auto dest: violations_error)
  with False assms show ?thesis
    by (simp add: submit_form_returns)
qed

lemma load_data_written: "load_data (w\<lparr>registrations_json := Some (Parsed v)\<rparr>) = Inr v"
  by (simp add: load_data_def json_load_def)




lemma built_record_valid:
  assumes "violations req = []"
  shows "valid_record (built_record sec req)"
  using assms unfolding violations_Nil_iff
  by (simp add: valid_record_def built_record_def registration_def str_field_def int_field_def
        nonempty_field_def positive_integer_def)




section \<open>Evaluating the handlers on concrete requests\<close>

lemmas eval_defs =
  scenario_def fresh_def with_field_def with_image_def collect_def form_get_def strip_def
  isspace_char_def isdigit_def isdigit_char_def isdecimal_char_def positive_integer_def
  int_raises_def uploaded_def allowed_file_def rsplit_ext_def lower_def lower_char_def
  upper_chars_def lower_chars_def ALLOWED_EXTENSIONS_def digit_val_def

lemmas handler_defs =
  submit_form_def Let_def check_def check_age_def check_file_def flash_def save_def
  new_flashes_def py_int_def int_space_def

section \<open>The claims\<close>

text \<open>
  C1. A submission that violates at least one validation rule (name, country, age,
  gender or dob missing after trimming; an age that is not a positive whole number; a
  phone with a character that is not a digit for \<open>str.isdigit\<close>; an id_type with an
  empty id_value; medical_concerns "Yes" with empty medical_details; a present file
  whose name is not allowed) leaves \<open>registrations.json\<close> exactly as it was, and with
  it the persisted sequence: no record is appended.
\<close>

theorem invalid_submission_keeps_store:
  assumes "name (collect req) = [] \<or> country (collect req) = [] \<or> age (collect req) = [] \<or>
           gender (collect req) = [] \<or> dob (collect req) = [] \<or>
           \<not> positive_integer (age (collect req)) \<or>
           (\<exists>c \<in> set (phone (collect req)). \<not> isdigit_char c) \<or>
           (id_type (collect req) \<noteq> [] \<and> id_value (collect req) = []) \<or>
           (medical_concerns (collect req) = ''Yes'' \<and> medical_details (collect req) = []) \<or>
           (\<exists>u. uploaded req = Some u \<and> \<not> allowed_file (filename u))"
  shows "registrations_json (snd (submit_form secure_filename req w)) = registrations_json w \<and>
         records (snd (submit_form secure_filename req w)) = records w"
proof -
  have "violations req \<noteq> []"
  proof
    assume "violations req = []"
    then show False
      using assms unfolding violations_Nil_iff
      by (auto simp: isdigit_def list_all_iff positive_integer_def)
  qed
  then have "\<not> succeeds secure_filename req w"
    by (simp add: succeeds_iff)
  then have "registrations_json (snd (submit_form secure_filename req w)) = registrations_json w"
    by (rule failed_submission_store)
  then show ?thesis
    by (simp add: records_def load_data_def)
qed

text \<open>
  The scenario with the age \<open>-5\<close>, on a state without a store: the store is still
  absent afterwards.
\<close>

theorem invalid_submission_keeps_store_witness:
  "\<not> positive_integer (age (collect (with_field ''age'' ''-5'' scenario))) \<and>
   registrations_json (snd (submit_form (\<lambda>n. n) (with_field ''age'' ''-5'' scenario) fresh)) = None \<and>
   records (snd (submit_form (\<lambda>n. n) (with_field ''age'' ''-5'' scenario) fresh)) = []"
proof -
  have h: "\<not> positive_integer (age (collect (with_field ''age'' ''-5'' scenario)))"
    by (simp add: eval_defs)
  have "registrations_json fresh = None" "records fresh = []"
    by (simp_all add: fresh_def records_def load_data_def)
  with h invalid_submission_keeps_store [of "with_field ''age'' ''-5'' scenario" "\<lambda>n. n" fresh]
  show ?thesis by simp
qed

text \<open>
  C2. A submission that violates a rule stores no file. The handler saves a file with
  an allowed name inside the validation pass, before it looks at the flag \<open>error\<close>:
  the scenario without a name and with the file \<open>id.png\<close> is rejected with the name
  message, the store stays absent, and \<open>uploads/id.png\<close> exists afterwards.
\<close>

theorem orphan_file_on_rejected_submission:
  "fst (submit_form (\<lambda>n. n) (with_image ''id.png'' ''scan'' (with_field ''name'' '''' scenario)) fresh)
     = Inr (Redirect ''register'') \<and>
   new_flashes fresh
     (snd (submit_form (\<lambda>n. n) (with_image ''id.png'' ''scan'' (with_field ''name'' '''' scenario)) fresh))
     = [(''Full Name is required'', ''error'')] \<and>
   registrations_json
     (snd (submit_form (\<lambda>n. n) (with_image ''id.png'' ''scan'' (with_field ''name'' '''' scenario)) fresh))
     = None \<and>
   uploads fresh ''id.png'' = None \<and>
   uploads
     (snd (submit_form (\<lambda>n. n) (with_image ''id.png'' ''scan'' (with_field ''name'' '''' scenario)) fresh))
     ''id.png'' = Some ''scan''"
  by (simp add: submit_form_def Let_def check_def check_age_def check_file_def flash_def save_def
        new_flashes_def py_int_def int_space_def eval_defs)

text \<open>
  C3. The age is rejected with an age message exactly when it is empty, is not a
  number, or is not above zero. The guard \<open>isdigit\<close> accepts the superscript two,
  \<open>int\<close> does not: on the scenario with the age U+00B2 the handler raises
  \<open>ValueError\<close> and flashes no age message. On every other age the verdict is the one
  stated (\<open>age_verdict\<close>).
\<close>

theorem superscript_age_raises:
  "isdigit [CHR 0xB2] \<and> py_int [CHR 0xB2] = Inl ValueError \<and>
   fst (submit_form (\<lambda>n. n) (with_field ''age'' [CHR 0xB2] scenario) fresh) = Inl ValueError \<and>
   new_flashes fresh (snd (submit_form (\<lambda>n. n) (with_field ''age'' [CHR 0xB2] scenario) fresh)) = []"
  by (simp add: handler_defs eval_defs)

text \<open>
  C4. Every rule is checked and each violated rule gives its message. On a form that
  holds only the age U+00B2, five rules are violated; the handler flashes the messages
  for name and country, raises in \<open>int\<close>, and never reaches the rules for gender and
  dob. When \<open>int\<close> does not raise, the error messages flashed are exactly those of the
  violated rules (\<open>returning_submission_flashes\<close>).
\<close>

theorem superscript_age_skips_later_rules:
  "fst (submit_form (\<lambda>n. n) \<lparr>form = [(''age'', [CHR 0xB2])], files = []\<rparr> fresh) = Inl ValueError \<and>
   new_flashes fresh (snd (submit_form (\<lambda>n. n) \<lparr>form = [(''age'', [CHR 0xB2])], files = []\<rparr> fresh)) =
     [(''Full Name is required'', ''error''), (''Country of Origin is required'', ''error'')] \<and>
   violations \<lparr>form = [(''age'', [CHR 0xB2])], files = []\<rparr> =
     [(''Full Name is required'', ''error''), (''Country of Origin is required'', ''error''),
      (''Age must be a positive number'', ''error''), (''Gender is required'', ''error''),
      (''Date of Birth is required'', ''error'')]"
  by (simp add: handler_defs violations_def errors_of_def eval_defs)

text \<open>
  C5. A present file whose name is not allowed is rejected with the file message and
  nothing is written. With the age U+00B2 the handler raises before it reaches the
  file check: \<open>notes.exe\<close> is not written, but no file message is flashed either. When
  \<open>int\<close> does not raise, the rejection is as stated (\<open>rejected_file_not_saved\<close>).
\<close>

theorem superscript_age_hides_file_error:
  "uploaded (with_image ''notes.exe'' ''MZ'' (with_field ''age'' [CHR 0xB2] scenario)) =
     Some \<lparr>filename = ''notes.exe'', stream = ''MZ''\<rparr> \<and>
   \<not> allowed_file ''notes.exe'' \<and>
   fst (submit_form (\<lambda>n. n) (with_image ''notes.exe'' ''MZ'' (with_field ''age'' [CHR 0xB2] scenario)) fresh)
     = Inl ValueError \<and>
   new_flashes fresh
     (snd (submit_form (\<lambda>n. n) (with_image ''notes.exe'' ''MZ'' (with_field ''age'' [CHR 0xB2] scenario)) fresh))
     = [] \<and>
   uploads
     (snd (submit_form (\<lambda>n. n) (with_image ''notes.exe'' ''MZ'' (with_field ''age'' [CHR 0xB2] scenario)) fresh))
     ''notes.exe'' = None"
  by (simp add: handler_defs eval_defs)



text \<open>
  C7. A successful submission appends exactly one record at the end of the persisted
  sequence; and whatever the route, the sequence before the request is a prefix of the
  sequence after it, which is longer by one record at most: nothing is updated or deleted.
\<close>

theorem submission_appends_one:
  "(succeeds secure_filename req w \<longrightarrow>
      records (snd (submit_form secure_filename req w)) = records w @ [built_record secure_filename req]) \<and>
   (\<exists>ys. records (snd (run secure_filename op w)) = records w @ ys \<and> length ys \<le> 1)"
proof
  show "succeeds secure_filename req w \<longrightarrow>
      records (snd (submit_form secure_filename req w)) = records w @ [built_record secure_filename req]"
    by (simp add: succeeds_store)
next
  show "\<exists>ys. records (snd (run secure_filename op w)) = records w @ ys \<and> length ys \<le> 1"
  proof (cases op)
    case Index
    then show ?thesis by (simp add: run_def index_def)
  next
    case Register
    then show ?thesis by (simp add: run_def register_def)
  next
    case (Submit r)
    show ?thesis
    proof (cases "succeeds secure_filename r w")
      case True
      then have "records (snd (submit_form secure_filename r w)) = records w @ [built_record secure_filename r]"
        by (rule succeeds_store)
      with Submit show ?thesis by (simp add: run_def)
    next
      case False
      then have "registrations_json (snd (submit_form secure_filename r w)) = registrations_json w"
        by (rule failed_submission_store)
      then have "records (snd (submit_form secure_filename r w)) = records w"
        by (simp add: records_def load_data_def)
      with Submit show ?thesis by (simp add: run_def)
    qed
  next
    case View
    then show ?thesis by (simp add: run_def view_registrations_def split: sum.splits)
  qed
qed

text \<open>The scenario, on a store that holds one element already.\<close>

theorem submission_appends_one_witness:
  "succeeds (\<lambda>n. n) scenario (fresh\<lparr>registrations_json := Some (Parsed (JArr [JStr ''kept'']))\<rparr>) \<and>
   records (snd (submit_form (\<lambda>n. n) scenario
      (fresh\<lparr>registrations_json := Some (Parsed (JArr [JStr ''kept'']))\<rparr>))) =
     [JStr ''kept'', built_record (\<lambda>n. n) scenario]"
proof -
  have v: "violations scenario = []"
    by (simp add: violations_Nil_iff eval_defs)
  have l: "load_data (fresh\<lparr>registrations_json := Some (Parsed (JArr [JStr ''kept'']))\<rparr>) =
      Inr (JArr [JStr ''kept''])"
    by (simp add: load_data_def json_load_def)
  then have r: "records (fresh\<lparr>registrations_json := Some (Parsed (JArr [JStr ''kept'']))\<rparr>) = [JStr ''kept'']"
    by (simp add: records_def)
  have h: "succeeds (\<lambda>n. n) scenario (fresh\<lparr>registrations_json := Some (Parsed (JArr [JStr ''kept'']))\<rparr>)"
    using v l by (simp add: succeeds_iff)
  from submission_appends_one [of "\<lambda>n. n" scenario
      "fresh\<lparr>registrations_json := Some (Parsed (JArr [JStr ''kept'']))\<rparr>" Index] h r
  show ?thesis by simp
qed

text \<open>
  C8. The record a successful submission persists is valid: name, country, gender and
  dob not empty, a positive integer age, an id_value whenever there is an id_type, and
  medical_details whenever medical_concerns is "Yes". After any request, a record of the
  store is one that was there before or is valid; so a store of valid records stays one.
\<close>

theorem persisted_records_valid:
  "(succeeds secure_filename req w \<longrightarrow>
      valid_record (last (records (snd (submit_form secure_filename req w))))) \<and>
   (\<forall>r \<in> set (records (snd (run secure_filename op w))). r \<in> set (records w) \<or> valid_record r) \<and>
   (list_all valid_record (records w) \<longrightarrow>
      list_all valid_record (records (snd (run secure_filename op w))))"
proof -
  have one: "succeeds secure_filename r w \<Longrightarrow>
      records (snd (submit_form secure_filename r w)) = records w @ [built_record secure_filename r] \<and>
      valid_record (built_record secure_filename r)" for r
    by (simp add: succeeds_store built_record_valid succeeds_iff)
  have "\<forall>r \<in> set (records (snd (run secure_filename op w))). r \<in> set (records w) \<or> valid_record r"
  proof (cases op)
    case Index
    then show ?thesis by (simp add: run_def index_def)
  next
    case Register
    then show ?thesis by (simp add: run_def register_def)
  next
    case (Submit r)
    show ?thesis
    proof (cases "succeeds secure_filename r w")
      case True
      with one [of r] Submit show ?thesis by (auto simp: run_def)
    next
      case False
      then have "registrations_json (snd (submit_form secure_filename r w)) = registrations_json w"
        by (rule failed_submission_store)
      then have "records (snd (submit_form secure_filename r w)) = records w"
        by (simp add: records_def load_data_def)
      with Submit show ?thesis by (simp add: run_def)
    qed
  next
    case View
    then show ?thesis by (simp add: run_def view_registrations_def split: sum.splits)
  qed
  then show ?thesis
    using one [of req] by (auto simp: list_all_iff)
qed

text \<open>The scenario on the fresh state.\<close>

theorem persisted_records_valid_witness:
  "succeeds (\<lambda>n. n) scenario fresh \<and>
   valid_record (last (records (snd (submit_form (\<lambda>n. n) scenario fresh)))) \<and>
   list_all valid_record (records (snd (run (\<lambda>n. n) (Submit scenario) fresh)))"
proof -
  have v: "violations scenario = []"
    by (simp add: violations_Nil_iff eval_defs)
  have l: "load_data fresh = Inr (JArr [])"
    by (simp add: fresh_def load_data_def)
  have h: "succeeds (\<lambda>n. n) scenario fresh"
    using v l by (simp add: succeeds_iff)
  have e: "list_all valid_record (records fresh)"
    using l by (simp add: records_def)
  from persisted_records_valid [of "\<lambda>n. n" scenario fresh "Submit scenario"] h e
  show ?thesis by simp
qed



text \<open>
  C10. The record a successful submission persists is an object with the fifteen keys,
  in the order of the source; an optional text field that the form does not hold is the
  empty string; and \<open>image_filename\<close> is null exactly when no file with an allowed name
  was uploaded.
\<close>

theorem persisted_record_shape:
  assumes "succeeds secure_filename req w"
  shows "\<exists>kvs. last (records (snd (submit_form secure_filename req w))) = JObj kvs \<and>
      map fst kvs =
        [''name'', ''country'', ''age'', ''gender'', ''dob'', ''phone'', ''id_type'', ''id_value'',
         ''emergency_name'', ''emergency_phone'', ''traveling_family'', ''medical_concerns'',
         ''medical_details'', ''current_residence'', ''image_filename''] \<and>
      (\<forall>k \<in> set [''phone'', ''id_type'', ''id_value'', ''emergency_name'', ''emergency_phone'',
                  ''traveling_family'', ''medical_concerns'', ''medical_details'',
                  ''current_residence''].
          map_of (form req) k = None \<longrightarrow> map_of kvs k = Some (JStr [])) \<and>
      (map_of kvs ''image_filename'' = Some JNull \<longleftrightarrow>
         \<not> (\<exists>u. uploaded req = Some u \<and> allowed_file (filename u)))"
proof -
  from assms have v: "violations req = []" by (simp add: succeeds_iff)
  then have f: "case uploaded req of None \<Rightarrow> True | Some u \<Rightarrow> allowed_file (filename u)"
    by (simp add: violations_Nil_iff)
  have e: "strip [] = []" by (simp add: strip_def)
  from assms have "last (records (snd (submit_form secure_filename req w))) = built_record secure_filename req"
    by (simp add: succeeds_store)
  then show ?thesis
    using f unfolding built_record_def registration_def
    by (auto simp: collect_def form_get_def e split: option.splits)
qed

text \<open>The scenario with the file \<open>Card.JPG\<close>.\<close>

theorem persisted_record_shape_witness:
  "succeeds (\<lambda>n. n) (with_image ''Card.JPG'' ''scan'' scenario) fresh \<and>
   last (records (snd (submit_form (\<lambda>n. n) (with_image ''Card.JPG'' ''scan'' scenario) fresh))) =
     JObj [(''name'', JStr ''Amina''), (''country'', JStr ''Syria''), (''age'', JInt 34),
           (''gender'', JStr ''F''), (''dob'', JStr ''1990-01-01''), (''phone'', JStr []),
           (''id_type'', JStr []), (''id_value'', JStr []), (''emergency_name'', JStr []),
           (''emergency_phone'', JStr []), (''traveling_family'', JStr []),
           (''medical_concerns'', JStr []), (''medical_details'', JStr []),
           (''current_residence'', JStr []), (''image_filename'', JStr ''Card.JPG'')]"
proof -
  have v: "violations (with_image ''Card.JPG'' ''scan'' scenario) = []"
    by (simp add: violations_Nil_iff eval_defs)
  have l: "load_data fresh = Inr (JArr [])"
    by (simp add: fresh_def load_data_def)
  have h: "succeeds (\<lambda>n. n) (with_image ''Card.JPG'' ''scan'' scenario) fresh"
    using v l by (simp add: succeeds_iff)
  have r: "records (snd (submit_form (\<lambda>n. n) (with_image ''Card.JPG'' ''scan'' scenario) fresh)) =
      [built_record (\<lambda>n. n) (with_image ''Card.JPG'' ''scan'' scenario)]"
    using v l by (simp add: submit_form_valid records_def load_data_written)
  have b: "built_record (\<lambda>n. n) (with_image ''Card.JPG'' ''scan'' scenario) =
     JObj [(''name'', JStr ''Amina''), (''country'', JStr ''Syria''), (''age'', JInt 34),
           (''gender'', JStr ''F''), (''dob'', JStr ''1990-01-01''), (''phone'', JStr []),
           (''id_type'', JStr []), (''id_value'', JStr []), (''emergency_name'', JStr []),
           (''emergency_phone'', JStr []), (''traveling_family'', JStr []),
           (''medical_concerns'', JStr []), (''medical_details'', JStr []),
           (''current_residence'', JStr []), (''image_filename'', JStr ''Card.JPG'')]"
    by (simp add: built_record_def registration_def eval_defs)
  from persisted_record_shape [OF h] h r b show ?thesis by simp
qed

end
